theory Spec2Isabelle
  imports Complex_Main "HOL-Library.Multiset"
begin

section \<open>The Iris dashboard script (app.py)\<close>

text \<open>
  The repository is one script, run top to bottom on every user interaction. It loads the
  Iris bunch, builds a table from it, reads four sidebar widgets and hands the table to
  library calls that build two tables and four figures. The embedding follows the script
  line by line; where a library call does the work, the definition gives the call's
  documented result and says so.
\<close>

subsection \<open>Values, errors and the loaded bunch\<close>

text \<open>A float64 cell: \<open>None\<close> is NaN (pandas' missing value), \<open>Some r\<close> a number.\<close>

type_synonym float64 = "real option"

text \<open>
  The exceptions the calls of the script can raise. \<open>Unmodelled\<close> marks the two cases the
  embedding does not follow: a selectbox over no options returns Python's None (a bunch
  without feature columns), and a colour column of numbers; what the plotting calls do with
  either is not modelled.
\<close>

datatype error = ValueError | IndexError | KeyError | Unmodelled

text \<open>
  \<open>load_iris()\<close> returns a bunch: a 2-d array of measurements (here a list of rows), the
  feature names, the class index of each row and the class names. The data file itself is
  not part of the repository, so the bunch is a parameter of everything below.
\<close>

record bunch =
  data :: "float64 list list"
  feature_names :: "string list"
  target :: "nat list"
  target_names :: "string list"

text \<open>
  Modelled from the spec: the table \<open>load_iris()\<close> reads is not under src/. Section 4.1
  gives its contract: exactly 150 records, 4 numeric feature columns with their names,
  a label with exactly 3 distinct values, no missing value; section 8 adds the 50/50/50
  split. The feature names are distinct and none of them is the label column's name.
\<close>

definition load_iris_contract :: "bunch \<Rightarrow> bool" where
  "load_iris_contract b \<longleftrightarrow>
     length (data b) = 150 \<and>
     list_all (\<lambda>r. length r = 4 \<and> list_all (\<lambda>v. v \<noteq> None) r) (data b) \<and>
     length (feature_names b) = 4 \<and> distinct (feature_names b) \<and>
     ''species'' \<notin> set (feature_names b) \<and>
     length (target b) = 150 \<and> list_all (\<lambda>t. t < 3) (target b) \<and>
     count_list (target b) 0 = 50 \<and> count_list (target b) 1 = 50 \<and>
     count_list (target b) 2 = 50 \<and>
     length (target_names b) = 3 \<and> distinct (target_names b)"

subsection \<open>The table: lines 29 to 34\<close>

text \<open>
  A pandas column is a float64 array or an object array of strings; a DataFrame is its row
  count (the length of its index) and its columns in order, each under its label.
\<close>

datatype series = Float64 "float64 list" | Object "string list"

record dataframe =
  index_length :: nat
  columns :: "(string \<times> series) list"

fun series_length :: "series \<Rightarrow> nat" where
  "series_length (Float64 xs) = length xs"
| "series_length (Object xs) = length xs"

text \<open>
  \<open>pd.DataFrame(data=array, columns=names)\<close>: one float64 column per name, column \<open>j\<close>
  holding entry \<open>j\<close> of every row; ValueError when the array's width is not the number of
  names.
\<close>

definition DataFrame :: "float64 list list \<Rightarrow> string list \<Rightarrow> error + dataframe" where
  "DataFrame d names =
     (if list_ex (\<lambda>r. length r \<noteq> length names) d then Inl ValueError
      else Inr \<lparr>index_length = length d,
                columns = map (\<lambda>j. (names ! j, Float64 (map (\<lambda>r. r ! j) d)))
                              [0..<length names]\<rparr>)"

text \<open>
  \<open>target_names[target]\<close>: numpy indexing by an integer array, one name per index;
  IndexError when an index is out of bounds.
\<close>

definition fancy_index :: "string list \<Rightarrow> nat list \<Rightarrow> error + string list" where
  "fancy_index names idx =
     (if list_ex (\<lambda>t. length names \<le> t) idx then Inl IndexError
      else Inr (map (\<lambda>t. names ! t) idx))"

text \<open>
  \<open>df[k] = s\<close>: ValueError when the length of \<open>s\<close> is not the row count; an existing
  column of that label is replaced where it stands, a new one is appended.
\<close>

definition setitem :: "dataframe \<Rightarrow> string \<Rightarrow> series \<Rightarrow> error + dataframe" where
  "setitem df k s =
     (if series_length s \<noteq> index_length df then Inl ValueError
      else Inr (df\<lparr>columns :=
             (if k \<in> set (map fst (columns df))
              then map (\<lambda>(n, c). if n = k then (n, s) else (n, c)) (columns df)
              else columns df @ [(k, s)])\<rparr>))"

text \<open>\<open>df[k]\<close>: the column under label \<open>k\<close>, KeyError when there is none.\<close>

definition getitem :: "dataframe \<Rightarrow> string \<Rightarrow> error + series" where
  "getitem df k = (case map_of (columns df) k of None \<Rightarrow> Inl KeyError | Some s \<Rightarrow> Inr s)"

text \<open>Lines 30 to 34: the frame of measurements, then the species column.\<close>

definition iris_df :: "bunch \<Rightarrow> error + dataframe" where
  "iris_df iris_dataset =
     (case DataFrame (data iris_dataset) (feature_names iris_dataset) of
        Inl e \<Rightarrow> Inl e
      | Inr df \<Rightarrow>
          (case fancy_index (target_names iris_dataset) (target iris_dataset) of
             Inl e \<Rightarrow> Inl e
           | Inr species \<Rightarrow> setitem df ''species'' (Object species)))"

subsection \<open>Dataset overview: lines 40 to 57\<close>

text \<open>\<open>Series.nunique()\<close>: the number of distinct values, NaN not counted.\<close>

fun nunique :: "series \<Rightarrow> nat" where
  "nunique (Object xs) = length (remdups xs)"
| "nunique (Float64 xs) = length (remdups (filter (\<lambda>v. v \<noteq> None) xs))"

text \<open>\<open>df.head(n)\<close>: the first \<open>n\<close> rows of every column.\<close>

fun head_series :: "nat \<Rightarrow> series \<Rightarrow> series" where
  "head_series n (Float64 xs) = Float64 (take n xs)"
| "head_series n (Object xs) = Object (take n xs)"

definition head :: "nat \<Rightarrow> dataframe \<Rightarrow> dataframe" where
  "head n df = \<lparr>index_length = min n (index_length df),
               columns = map (\<lambda>(k, s). (k, head_series n s)) (columns df)\<rparr>"

text \<open>The numbers of a float64 column that are not NaN, in order.\<close>

fun notna :: "float64 list \<Rightarrow> real list" where
  "notna [] = []"
| "notna (None # vs) = notna vs"
| "notna (Some r # vs) = r # notna vs"

text \<open>
  The rows of \<open>df.describe()\<close> for one float64 column, NaN left out of every statistic:
  count, mean, sample standard deviation (one degree of freedom less than the count), min,
  the quartiles by linear interpolation between the two nearest sorted values, and max.
  A statistic that does not exist (no value, or fewer than two for std) is NaN.
\<close>

definition mean :: "real list \<Rightarrow> real" where
  "mean xs = sum_list xs / real (length xs)"

definition std :: "real list \<Rightarrow> float64" where
  "std xs =
     (if length xs < 2 then None
      else Some (sqrt (sum_list (map (\<lambda>x. (x - mean xs) ^ 2) xs) / real (length xs - 1))))"

definition quantile :: "real list \<Rightarrow> real \<Rightarrow> float64" where
  "quantile xs q =
     (if xs = [] then None
      else let s = sort xs;
               h = real (length s - 1) * q;
               lo = nat \<lfloor>h\<rfloor>;
               hi = min (lo + 1) (length s - 1)
           in Some (s ! lo + (h - real lo) * (s ! hi - s ! lo)))"

definition describe_series :: "float64 list \<Rightarrow> (string \<times> float64) list" where
  "describe_series vs =
     (let xs = notna vs in
      [(''count'', Some (real (length xs))),
       (''mean'', if xs = [] then None else Some (mean xs)),
       (''std'', std xs),
       (''min'', if xs = [] then None else Some (Min (set xs))),
       (''25%'', quantile xs (1 / 4)),
       (''50%'', quantile xs (1 / 2)),
       (''75%'', quantile xs (3 / 4)),
       (''max'', if xs = [] then None else Some (Max (set xs)))])"

text \<open>The float64 columns of a frame, in order: what describe, select_dtypes and corr keep.\<close>

fun float_columns :: "(string \<times> series) list \<Rightarrow> (string \<times> float64 list) list" where
  "float_columns [] = []"
| "float_columns ((k, Float64 vs) # cs) = (k, vs) # float_columns cs"
| "float_columns ((k, Object _) # cs) = float_columns cs"

definition describe :: "dataframe \<Rightarrow> (string \<times> (string \<times> float64) list) list" where
  "describe df = map (\<lambda>(k, vs). (k, describe_series vs)) (float_columns (columns df))"

text \<open>Line 63: \<open>select_dtypes(include=['float64', 'int64']).columns.tolist()\<close>.\<close>

definition numeric_columns :: "dataframe \<Rightarrow> string list" where
  "numeric_columns df = map fst (float_columns (columns df))"

subsection \<open>The sidebar: lines 70 to 98\<close>

text \<open>
  Streamlit keeps the value the user last gave a widget in its session state, under the
  widget's key. A widget call renders the widget as declared and returns that value, or the
  widget's default when the state holds none the widget can return: a selectbox returns
  one of its options (Python's None when it has no option), a slider a value of its range
  on its step grid.
\<close>

datatype wvalue = Str string | Num int

type_synonym session_state = "string \<Rightarrow> wvalue option"

datatype widget =
    Selectbox string "string list" nat string
  | Slider string int int int int string

definition selectbox ::
  "session_state \<Rightarrow> string \<Rightarrow> string list \<Rightarrow> nat \<Rightarrow> string \<Rightarrow> widget \<times> string option" where
  "selectbox ss label options index key =
     (let default = (if index < length options then Some (options ! index) else None)
      in (Selectbox label options index key,
          case ss key of
            Some (Str s) \<Rightarrow> if s \<in> set options then Some s else default
          | _ \<Rightarrow> default))"

definition slider ::
  "session_state \<Rightarrow> string \<Rightarrow> int \<Rightarrow> int \<Rightarrow> int \<Rightarrow> int \<Rightarrow> string \<Rightarrow> widget \<times> int" where
  "slider ss label min_value max_value val step key =
     (Slider label min_value max_value val step key,
      case ss key of
        Some (Num n) \<Rightarrow>
          if min_value \<le> n \<and> n \<le> max_value \<and> (n - min_value) mod step = 0 then n else val
      | _ \<Rightarrow> val)"

text \<open>A user interaction with the widget of key \<open>k\<close> stores the new value under \<open>k\<close>.\<close>

definition interact :: "session_state \<Rightarrow> string \<Rightarrow> wvalue \<Rightarrow> session_state" where
  "interact ss k v = ss(k \<mapsto> v)"

text \<open>
  The control state of a run: what the four widget calls of lines 70 to 98 return. The
  sidebar is the four widgets as declared, in the order of the calls, with that state.
\<close>

record control_state =
  selected_histogram_column :: "string option"
  histogram_bins :: int
  scatter_x_column :: "string option"
  scatter_y_column :: "string option"

definition sidebar :: "session_state \<Rightarrow> string list \<Rightarrow> widget list \<times> control_state" where
  "sidebar ss cols =
     (let (w1, hc) = selectbox ss ''Select a column for histogram:'' cols 0 ''histogram_column'';
          (w2, bins) = slider ss ''Number of bins:'' 5 50 20 1 ''histogram_bins'';
          (w3, sx) = selectbox ss ''Select X-axis column:'' cols 0 ''scatter_x'';
          (w4, sy) = selectbox ss ''Select Y-axis column:'' cols
                       (if length cols > 1 then 1 else 0) ''scatter_y''
      in ([w1, w2, w3, w4],
          \<lparr>selected_histogram_column = hc, histogram_bins = bins,
           scatter_x_column = sx, scatter_y_column = sy\<rparr>))"

subsection \<open>The figures: lines 106 to 178\<close>

text \<open>
  Plotly Express splits the rows by the values of the colour column, one trace per value, in
  the order the values first appear in the column.
\<close>

definition uniq :: "'a list \<Rightarrow> 'a list" where
  "uniq xs = rev (remdups (rev xs))"

definition rows_of :: "string list \<Rightarrow> string \<Rightarrow> 'a list \<Rightarrow> 'a list" where
  "rows_of labels g xs = map snd (filter (\<lambda>(l, x). l = g) (zip labels xs))"

fun group_series :: "string list \<Rightarrow> string \<Rightarrow> series \<Rightarrow> series" where
  "group_series labels g (Float64 xs) = Float64 (rows_of labels g xs)"
| "group_series labels g (Object xs) = Object (rows_of labels g xs)"

text \<open>
  \<open>px.histogram(df, x, nbins, color, barmode, title, opacity)\<close> builds the figure's
  description: per colour value a histogram trace holding that group's values of column
  \<open>x\<close> and the requested \<open>nbinsx\<close>. The bins themselves are drawn by plotly.js when the
  figure is shown; nothing of the script computes them. ValueError when \<open>x\<close> or the colour
  column is not a column of the frame. The script's colour column is always the object
  column species; a float64 colour column is not modelled.
\<close>

record histogram_trace =
  hist_name :: string
  hist_x :: series
  hist_nbinsx :: int
  hist_opacity :: real

record histogram_figure =
  hist_traces :: "histogram_trace list"
  hist_barmode :: string
  hist_title :: string
  hist_hovermode :: "string option"
  hist_height :: "nat option"

definition px_histogram ::
  "dataframe \<Rightarrow> string \<Rightarrow> int \<Rightarrow> string \<Rightarrow> string \<Rightarrow> string \<Rightarrow> real
     \<Rightarrow> error + histogram_figure" where
  "px_histogram df x nbins color barmode title opacity =
     (case (getitem df x, getitem df color) of
        (Inr xs, Inr (Object labels)) \<Rightarrow>
          Inr \<lparr>hist_traces =
                 map (\<lambda>g. \<lparr>hist_name = g, hist_x = group_series labels g xs,
                           hist_nbinsx = nbins, hist_opacity = opacity\<rparr>) (uniq labels),
               hist_barmode = barmode, hist_title = title,
               hist_hovermode = None, hist_height = None\<rparr>
      | (Inr xs, Inr (Float64 _)) \<Rightarrow> Inl Unmodelled
      | _ \<Rightarrow> Inl ValueError)"

text \<open>
  \<open>px.scatter(df, x, y, color, title, hover_data)\<close>: per colour value a trace with one
  point per row of the group, at the row's values of columns \<open>x\<close> and \<open>y\<close>; the hover data
  names the columns shown on hover and their format.
\<close>

record scatter_trace =
  scat_name :: string
  scat_x :: series
  scat_y :: series

record scatter_figure =
  scat_traces :: "scatter_trace list"
  scat_title :: string
  scat_hover_data :: "(string \<times> string) list"
  scat_hovermode :: "string option"
  scat_height :: "nat option"

definition px_scatter ::
  "dataframe \<Rightarrow> string \<Rightarrow> string \<Rightarrow> string \<Rightarrow> string \<Rightarrow> (string \<times> string) list
     \<Rightarrow> error + scatter_figure" where
  "px_scatter df x y color title hover_data =
     (case (getitem df x, getitem df y, getitem df color) of
        (Inr xs, Inr ys, Inr (Object labels)) \<Rightarrow>
          if list_ex (\<lambda>(k, f). map_of (columns df) k = None) hover_data then Inl ValueError
          else Inr \<lparr>scat_traces =
                      map (\<lambda>g. \<lparr>scat_name = g, scat_x = group_series labels g xs,
                                scat_y = group_series labels g ys\<rparr>) (uniq labels),
                    scat_title = title, scat_hover_data = hover_data,
                    scat_hovermode = None, scat_height = None\<rparr>
      | (Inr xs, Inr ys, Inr (Float64 _)) \<Rightarrow> Inl Unmodelled
      | _ \<Rightarrow> Inl ValueError)"

text \<open>The points of a trace: its x and y values paired row by row.\<close>

fun cells :: "series \<Rightarrow> (float64 + string) list" where
  "cells (Float64 xs) = map Inl xs"
| "cells (Object xs) = map Inr xs"

definition points :: "scatter_trace \<Rightarrow> ((float64 + string) \<times> (float64 + string)) list" where
  "points t = zip (cells (scat_x t)) (cells (scat_y t))"

text \<open>
  Python's \<open>==\<close> on two cells: two strings or two numbers that are equal; NaN equals
  nothing, itself included.
\<close>

fun float_eq :: "float64 \<Rightarrow> float64 \<Rightarrow> bool" where
  "float_eq (Some a) (Some b) = (a = b)"
| "float_eq _ _ = False"

fun cell_eq :: "float64 + string \<Rightarrow> float64 + string \<Rightarrow> bool" where
  "cell_eq (Inl a) (Inl b) = float_eq a b"
| "cell_eq (Inr s) (Inr t) = (s = t)"
| "cell_eq _ _ = False"

text \<open>\<open>df[ks]\<close> with a list of labels: the frame of those columns, KeyError when one is missing.\<close>

definition getitems :: "dataframe \<Rightarrow> string list \<Rightarrow> error + dataframe" where
  "getitems df ks =
     (if list_ex (\<lambda>k. map_of (columns df) k = None) ks then Inl KeyError
      else Inr (df\<lparr>columns := map (\<lambda>k. (k, the (map_of (columns df) k))) ks\<rparr>))"

text \<open>
  Modelled from the spec: \<open>DataFrame.corr()\<close> is pandas code, not under src/. Section 4.3:
  the standard sample Pearson formula, covariance over the product of the standard
  deviations, and a not-a-number sentinel where that is undefined (for one, a column of zero
  variance). A pair of columns is correlated over the rows where both cells are numbers.
\<close>

fun complete_pairs :: "float64 list \<Rightarrow> float64 list \<Rightarrow> (real \<times> real) list" where
  "complete_pairs (Some x # xs) (Some y # ys) = (x, y) # complete_pairs xs ys"
| "complete_pairs (_ # xs) (_ # ys) = complete_pairs xs ys"
| "complete_pairs _ _ = []"

definition covariance :: "(real \<times> real) list \<Rightarrow> real" where
  "covariance ps =
     sum_list (map (\<lambda>(x, y). (x - mean (map fst ps)) * (y - mean (map snd ps))) ps)
       / real (length ps - 1)"

definition variance :: "real list \<Rightarrow> real" where
  "variance xs = covariance (map (\<lambda>x. (x, x)) xs)"

definition pearson :: "(real \<times> real) list \<Rightarrow> float64" where
  "pearson ps =
     (let sx = sqrt (variance (map fst ps)); sy = sqrt (variance (map snd ps))
      in if length ps < 2 \<or> sx * sy = 0 then None else Some (covariance ps / (sx * sy)))"

text \<open>The result of corr as the script uses it: \<open>.columns\<close> and \<open>.values\<close>.\<close>

definition corr :: "dataframe \<Rightarrow> string list \<times> float64 list list" where
  "corr df =
     (let cs = float_columns (columns df)
      in (map fst cs,
          map (\<lambda>(i, xs). map (\<lambda>(j, ys). pearson (complete_pairs xs ys)) cs) cs))"

text \<open>
  \<open>go.Heatmap(z, x, y, colorscale, zmid, text, texttemplate, textfont)\<close> in a figure,
  with the layout the script sets.
\<close>

record heatmap_figure =
  heat_z :: "float64 list list"
  heat_x :: "string list"
  heat_y :: "string list"
  heat_colorscale :: string
  heat_zmid :: real
  heat_text :: "float64 list list"
  heat_texttemplate :: string
  heat_title :: string
  heat_height :: nat
  heat_width :: nat

text \<open>
  The label plotly draws in a heatmap cell is the trace's texttemplate with its placeholders
  filled in. A placeholder is written \<open>%{variable}\<close> or \<open>%{variable:format}\<close>; everything
  else in the template is drawn as written. So a template that nowhere holds the opener
  \<open>%{\<close> is itself the label of every cell. How plotly fills a template that does hold
  placeholders is its own code and is the parameter \<open>fill\<close>.
\<close>

fun has_placeholder :: "string \<Rightarrow> bool" where
  "has_placeholder (c # d # cs) =
     ((c = CHR ''%'' \<and> d = CHR ''{'') \<or> has_placeholder (d # cs))"
| "has_placeholder _ = False"

definition texttemplate_label :: "(string \<Rightarrow> 'c \<Rightarrow> string) \<Rightarrow> string \<Rightarrow> 'c \<Rightarrow> string" where
  "texttemplate_label fill template cell =
     (if has_placeholder template then fill template cell else template)"

text \<open>
  \<open>Series.value_counts()\<close>: each distinct value with the number of rows holding it,
  the larger count first, equal counts in the order the values first appear.
\<close>

definition value_counts :: "string list \<Rightarrow> (string \<times> nat) list" where
  "value_counts xs =
     sort_key (\<lambda>(l, c). - int c) (map (\<lambda>l. (l, count_list xs l)) (uniq xs))"

text \<open>\<open>px.pie(values, names, title, hole)\<close>: slice \<open>i\<close> is \<open>names[i]\<close> with \<open>values[i]\<close>.\<close>

record pie_figure =
  pie_values :: "nat list"
  pie_names :: "string list"
  pie_title :: string
  pie_hole :: real
  pie_height :: "nat option"

definition px_pie :: "nat list \<Rightarrow> string list \<Rightarrow> string \<Rightarrow> real \<Rightarrow> pie_figure" where
  "px_pie vals names title hole =
     \<lparr>pie_values = vals, pie_names = names, pie_title = title, pie_hole = hole,
      pie_height = None\<rparr>"

definition slices :: "pie_figure \<Rightarrow> (string \<times> nat) list" where
  "slices f = zip (pie_names f) (pie_values f)"

subsection \<open>One run of the script\<close>

text \<open>
  What a run puts on the page: the three metrics, the two tables, the sidebar and the four
  figures (titles, headers and the footer are fixed text and left out). An exception ends the
  run, so every failing call is the run's result.
\<close>

record page =
  total_samples :: nat
  total_features :: nat
  species_classes :: nat
  first_rows :: dataframe
  summary_statistics :: "(string \<times> (string \<times> float64) list) list"
  widgets :: "widget list"
  histogram :: histogram_figure
  scatter :: scatter_figure
  heatmap :: heatmap_figure
  species_chart :: pie_figure

definition on_success :: "error + 'a \<Rightarrow> ('a \<Rightarrow> error + 'b) \<Rightarrow> error + 'b" where
  "on_success r f = (case r of Inl e \<Rightarrow> Inl e | Inr a \<Rightarrow> f a)"

text \<open>
  Lines 36 to 180 for a frame \<open>df\<close>, the number of feature names \<open>n\<close> and a session state. The
  result is the page together with the frame as the pass leaves it: no line of the pass
  assigns to the frame, and each library call builds a new object from it.
\<close>

definition render_pass :: "dataframe \<Rightarrow> nat \<Rightarrow> session_state \<Rightarrow> error + dataframe \<times> page" where
  "render_pass df n ss =
     on_success (getitem df ''species'') (\<lambda>species.
     let cols = numeric_columns df;
         (ws, cs) = sidebar ss cols
     in case (selected_histogram_column cs, scatter_x_column cs, scatter_y_column cs) of
          (Some hc, Some sx, Some sy) \<Rightarrow>
            on_success (px_histogram df hc (histogram_bins cs) ''species'' ''overlay''
                          (''Distribution of '' @ hc) (7 / 10)) (\<lambda>hist.
            on_success (px_scatter df sx sy ''species'' (sx @ '' vs '' @ sy)
                          (map (\<lambda>c. (c, '':.2f'')) cols)) (\<lambda>scat.
            on_success (getitems df cols) (\<lambda>numeric_df.
            let (labels, correlation_matrix) = corr numeric_df in
            on_success (getitem df ''species'') (\<lambda>species'.
            case species' of
              Float64 _ \<Rightarrow> Inl Unmodelled
            | Object sp \<Rightarrow>
                let species_counts = value_counts sp in
                Inr (df,
                  \<lparr>total_samples = index_length df,
                   total_features = n,
                   species_classes = nunique species,
                   first_rows = head 10 df,
                   summary_statistics = describe df,
                   widgets = ws,
                   histogram = hist\<lparr>hist_hovermode := Some ''x unified'',
                                    hist_height := Some 500\<rparr>,
                   scatter = scat\<lparr>scat_hovermode := Some ''closest'',
                                  scat_height := Some 500\<rparr>,
                   heatmap =
                     \<lparr>heat_z = correlation_matrix, heat_x = labels, heat_y = labels,
                      heat_colorscale = ''RdBu'', heat_zmid = 0,
                      heat_text = correlation_matrix, heat_texttemplate = ''%.2f'',
                      heat_title = ''Feature Correlation Matrix'',
                      heat_height = 600, heat_width = 700\<rparr>,
                   species_chart =
                     (px_pie (map snd species_counts) (map fst species_counts)
                        ''Distribution of Iris Species'' (4 / 10))
                       \<lparr>pie_height := Some 400\<rparr>\<rparr>)))))
        | _ \<Rightarrow> Inl Unmodelled)"

text \<open>The whole script: load the bunch into the frame, then the pass over it.\<close>

definition run_script :: "bunch \<Rightarrow> session_state \<Rightarrow> error + dataframe \<times> page" where
  "run_script iris_dataset ss =
     on_success (iris_df iris_dataset) (\<lambda>df.
       render_pass df (length (feature_names iris_dataset)) ss)"

subsection \<open>Sample inputs\<close>

text \<open>
  A bunch of the documented shape, used to run the theorems below on a concrete input:
  150 rows of four numbers, fifty rows of each of the three classes. Its numbers are made
  up; they are not the Iris measurements.
\<close>

definition sample_bunch :: bunch where
  "sample_bunch =
     \<lparr>data = map (\<lambda>i. [Some (4 + real (i mod 10) / 10), Some (2 + real (i mod 7) / 10),
                         Some (1 + real (i div 50)), Some (real (i mod 3) / 10)]) [0..<150],
      feature_names = [''sepal length (cm)'', ''sepal width (cm)'',
                       ''petal length (cm)'', ''petal width (cm)''],
      target = map (\<lambda>i. i div 50) [0..<150],
      target_names = [''setosa'', ''versicolor'', ''virginica'']\<rparr>"

text \<open>The sample bunch with its last column made constant: a column of zero variance.\<close>

definition flat_bunch :: bunch where
  "flat_bunch = sample_bunch\<lparr>data := map (\<lambda>r. r[3 := Some 1]) (data sample_bunch)\<rparr>"

section \<open>Properties\<close>

subsection \<open>The frame of a bunch that keeps the contract\<close>

lemma iris_df_contract:
  assumes "load_iris_contract b"
  shows "iris_df b = Inr \<lparr>index_length = 150,
            columns = map (\<lambda>j. (feature_names b ! j, Float64 (map (\<lambda>r. r ! j) (data b)))) [0..<4]
                      @ [(''species'', Object (map (\<lambda>t. target_names b ! t) (target b)))]\<rparr>"
  using assms
  by (auto simp: load_iris_contract_def iris_df_def DataFrame_def fancy_index_def setitem_def
      list_all_iff list_ex_iff in_set_conv_nth)

lemma float_columns_append:
  "float_columns (cs @ ds) = float_columns cs @ float_columns ds"
  by (induction cs rule: float_columns.induct) auto

lemma float_columns_map_Float64:
  "float_columns (map (\<lambda>j. (f j, Float64 (g j))) js) = map (\<lambda>j. (f j, g j)) js"
  by (induction js) auto

lemma map_of_map_distinct:
  assumes "distinct (map f js)" "j \<in> set js"
  shows "map_of (map (\<lambda>j. (f j, g j)) js) (f j) = Some (g j)"
  using assms by (induction js) (auto simp: rev_image_eqI)

lemma selectbox_Some:
  assumes "index < length options"
  shows "\<exists>v. snd (selectbox ss label options index key) = Some v \<and> v \<in> set options"
  using assms by (auto simp: selectbox_def Let_def split: option.splits wvalue.splits)

lemma sidebar_eq:
  "sidebar ss cols =
     ([Selectbox ''Select a column for histogram:'' cols 0 ''histogram_column'',
       Slider ''Number of bins:'' 5 50 20 1 ''histogram_bins'',
       Selectbox ''Select X-axis column:'' cols 0 ''scatter_x'',
       Selectbox ''Select Y-axis column:'' cols (if length cols > 1 then 1 else 0) ''scatter_y''],
      \<lparr>selected_histogram_column = snd (selectbox ss ''Select a column for histogram:'' cols 0 ''histogram_column''),
       histogram_bins = snd (slider ss ''Number of bins:'' 5 50 20 1 ''histogram_bins''),
       scatter_x_column = snd (selectbox ss ''Select X-axis column:'' cols 0 ''scatter_x''),
       scatter_y_column = snd (selectbox ss ''Select Y-axis column:'' cols (if length cols > 1 then 1 else 0) ''scatter_y'')\<rparr>)"
  by (simp add: sidebar_def Let_def split: prod.splits) (auto simp: selectbox_def slider_def Let_def)



lemma contract_columns:
  assumes "load_iris_contract b" "iris_df b = Inr df"
  shows "index_length df = 150"
    and "columns df = map (\<lambda>j. (feature_names b ! j, Float64 (map (\<lambda>r. r ! j) (data b)))) [0..<4]
                      @ [(''species'', Object (map (\<lambda>t. target_names b ! t) (target b)))]"
  using iris_df_contract[OF assms(1)] assms(2) by auto

lemma contract_names:
  assumes "load_iris_contract b"
  shows "map (\<lambda>j. feature_names b ! j) [0..<4] = feature_names b"
proof -
  have "length (feature_names b) = 4" using assms by (simp add: load_iris_contract_def)
  then show ?thesis by (metis map_nth)
qed

lemma contract_numeric_columns:
  assumes "load_iris_contract b" "iris_df b = Inr df"
  shows "numeric_columns df = feature_names b"
  using contract_names[OF assms(1)]
  by (simp add: numeric_columns_def contract_columns(2)[OF assms] float_columns_append
      float_columns_map_Float64 comp_def del: upt_Suc)

lemma contract_species:
  assumes "load_iris_contract b" "iris_df b = Inr df"
  shows "getitem df ''species'' = Inr (Object (map (\<lambda>t. target_names b ! t) (target b)))"
proof -
  let ?fc = "map (\<lambda>j. (feature_names b ! j, Float64 (map (\<lambda>r. r ! j) (data b)))) [0..<4]"
  have "map fst ?fc = feature_names b"
    using contract_names[OF assms(1)] by (simp add: comp_def del: upt_Suc)
  moreover have "''species'' \<notin> set (feature_names b)"
    using assms(1) by (simp add: load_iris_contract_def)
  ultimately have "''species'' \<notin> fst ` set ?fc"
    by (metis list.set_map)
  then have "map_of ?fc ''species'' = None"
    by (simp only: map_of_eq_None_iff not_False_eq_True)
  then show ?thesis
    by (simp add: getitem_def contract_columns(2)[OF assms] map_add_def del: upt_Suc)
qed

lemma contract_feature:
  assumes "load_iris_contract b" "iris_df b = Inr df" "j < 4"
  shows "getitem df (feature_names b ! j) = Inr (Float64 (map (\<lambda>r. r ! j) (data b)))"
proof -
  let ?fc = "map (\<lambda>j. (feature_names b ! j, Float64 (map (\<lambda>r. r ! j) (data b)))) [0..<4]"
  have "distinct (feature_names b)" using assms(1) by (simp add: load_iris_contract_def)
  then have "distinct (map (\<lambda>j. feature_names b ! j) [0..<4])"
    using contract_names[OF assms(1)] by simp
  moreover have "j \<in> set [0..<4]" using assms(3) by simp
  ultimately have "map_of ?fc (feature_names b ! j) = Some (Float64 (map (\<lambda>r. r ! j) (data b)))"
    by (rule map_of_map_distinct)
  then show ?thesis
    by (simp add: getitem_def contract_columns(2)[OF assms(1,2)] map_add_def del: upt_Suc)
qed

lemma contract_feature_column:
  assumes "load_iris_contract b" "iris_df b = Inr df" "k \<in> set (feature_names b)"
  shows "\<exists>xs. getitem df k = Inr (Float64 xs) \<and> length xs = 150"
proof -
  have "length (feature_names b) = 4" "length (data b) = 150"
    using assms(1) by (simp_all add: load_iris_contract_def)
  then obtain j where "j < 4" "k = feature_names b ! j"
    using assms(3) by (metis in_set_conv_nth)
  then show ?thesis
    using contract_feature[OF assms(1,2)] \<open>length (data b) = 150\<close> by simp
qed


lemma sidebar_Some:
  assumes "length cols = 4"
  shows "\<exists>hc sx sy.
    selected_histogram_column (snd (sidebar ss cols)) = Some hc \<and> hc \<in> set cols \<and>
    scatter_x_column (snd (sidebar ss cols)) = Some sx \<and> sx \<in> set cols \<and>
    scatter_y_column (snd (sidebar ss cols)) = Some sy \<and> sy \<in> set cols"
proof -
  obtain hc where 1: "snd (selectbox ss ''Select a column for histogram:'' cols 0 ''histogram_column'') = Some hc" "hc \<in> set cols"
    using selectbox_Some[of 0 cols ss "''Select a column for histogram:''" "''histogram_column''"] assms by auto
  obtain sx where 2: "snd (selectbox ss ''Select X-axis column:'' cols 0 ''scatter_x'') = Some sx" "sx \<in> set cols"
    using selectbox_Some[of 0 cols ss "''Select X-axis column:''" "''scatter_x''"] assms by auto
  obtain sy where 3: "snd (selectbox ss ''Select Y-axis column:'' cols 1 ''scatter_y'') = Some sy" "sy \<in> set cols"
    using selectbox_Some[of 1 cols ss "''Select Y-axis column:''" "''scatter_y''"] assms by auto
  show ?thesis
    using 1 2 3 assms by (simp add: sidebar_eq)
qed

lemma contract_map_of:
  assumes "load_iris_contract b" "iris_df b = Inr df" "k \<in> set (feature_names b)"
  shows "map_of (columns df) k \<noteq> None"
  using contract_feature_column[OF assms] by (auto simp: getitem_def split: option.splits)

lemma contract_px_histogram:
  assumes "load_iris_contract b" "iris_df b = Inr df" "hc \<in> set (feature_names b)"
  shows "\<exists>xs. getitem df hc = Inr (Float64 xs) \<and> length xs = 150 \<and>
     px_histogram df hc nbins ''species'' barmode title opacity =
       Inr \<lparr>hist_traces =
              map (\<lambda>g. \<lparr>hist_name = g,
                        hist_x = Float64 (rows_of (map (\<lambda>t. target_names b ! t) (target b)) g xs),
                        hist_nbinsx = nbins, hist_opacity = opacity\<rparr>)
                  (uniq (map (\<lambda>t. target_names b ! t) (target b))),
             hist_barmode = barmode, hist_title = title,
             hist_hovermode = None, hist_height = None\<rparr>"
  using contract_feature_column[OF assms] contract_species[OF assms(1,2)]
  by (auto simp: px_histogram_def)

lemma contract_px_scatter:
  assumes "load_iris_contract b" "iris_df b = Inr df"
    "sx \<in> set (feature_names b)" "sy \<in> set (feature_names b)"
  shows "\<exists>xs ys. getitem df sx = Inr (Float64 xs) \<and> getitem df sy = Inr (Float64 ys) \<and>
     length xs = 150 \<and> length ys = 150 \<and>
     px_scatter df sx sy ''species'' title (map (\<lambda>c. (c, f)) (feature_names b)) =
       Inr \<lparr>scat_traces =
              map (\<lambda>g. \<lparr>scat_name = g,
                        scat_x = Float64 (rows_of (map (\<lambda>t. target_names b ! t) (target b)) g xs),
                        scat_y = Float64 (rows_of (map (\<lambda>t. target_names b ! t) (target b)) g ys)\<rparr>)
                  (uniq (map (\<lambda>t. target_names b ! t) (target b))),
             scat_title = title, scat_hover_data = map (\<lambda>c. (c, f)) (feature_names b),
             scat_hovermode = None, scat_height = None\<rparr>"
proof -
  have "\<not> list_ex (\<lambda>(k, f). map_of (columns df) k = None) (map (\<lambda>c. (c, f)) (feature_names b))"
    using contract_map_of[OF assms(1,2)] by (auto simp: list_ex_iff)
  then show ?thesis
    using contract_feature_column[OF assms(1,2,3)] contract_feature_column[OF assms(1,2,4)]
      contract_species[OF assms(1,2)]
    by (auto simp: px_scatter_def)
qed

lemma contract_getitems:
  assumes "load_iris_contract b" "iris_df b = Inr df"
  shows "getitems df (feature_names b) =
     Inr (df\<lparr>columns := map (\<lambda>k. (k, the (map_of (columns df) k))) (feature_names b)\<rparr>)"
proof -
  have "\<not> list_ex (\<lambda>k. map_of (columns df) k = None) (feature_names b)"
    using contract_map_of[OF assms(1,2)] by (auto simp: list_ex_iff)
  then show ?thesis by (simp add: getitems_def)
qed

lemma run_script_contract:
  assumes c: "load_iris_contract b" and df: "iris_df b = Inr df"
    and hc: "selected_histogram_column (snd (sidebar ss (feature_names b))) = Some hc"
    and sx: "scatter_x_column (snd (sidebar ss (feature_names b))) = Some sx"
    and sy: "scatter_y_column (snd (sidebar ss (feature_names b))) = Some sy"
    and hist: "px_histogram df hc (histogram_bins (snd (sidebar ss (feature_names b)))) ''species''
        ''overlay'' (''Distribution of '' @ hc) (7 / 10) = Inr hist"
    and scat: "px_scatter df sx sy ''species'' (sx @ '' vs '' @ sy)
        (map (\<lambda>c. (c, '':.2f'')) (feature_names b)) = Inr scat"
    and ndf: "getitems df (feature_names b) = Inr ndf"
  shows "run_script b ss = Inr (df,
       \<lparr>total_samples = index_length df,
        total_features = length (feature_names b),
        species_classes = nunique (Object (map (\<lambda>t. target_names b ! t) (target b))),
        first_rows = head 10 df,
        summary_statistics = describe df,
        widgets = fst (sidebar ss (feature_names b)),
        histogram = hist\<lparr>hist_hovermode := Some ''x unified'', hist_height := Some 500\<rparr>,
        scatter = scat\<lparr>scat_hovermode := Some ''closest'', scat_height := Some 500\<rparr>,
        heatmap =
          \<lparr>heat_z = snd (corr ndf), heat_x = fst (corr ndf), heat_y = fst (corr ndf),
           heat_colorscale = ''RdBu'', heat_zmid = 0,
           heat_text = snd (corr ndf), heat_texttemplate = ''%.2f'',
           heat_title = ''Feature Correlation Matrix'',
           heat_height = 600, heat_width = 700\<rparr>,
        species_chart =
          (px_pie (map snd (value_counts (map (\<lambda>t. target_names b ! t) (target b))))
                  (map fst (value_counts (map (\<lambda>t. target_names b ! t) (target b))))
             ''Distribution of Iris Species'' (4 / 10))\<lparr>pie_height := Some 400\<rparr>\<rparr>)"
  unfolding run_script_def render_pass_def on_success_def
  by (simp add: df contract_species[OF c df] contract_numeric_columns[OF c df]
      hc sx sy hist[simplified] scat[simplified] ndf Let_def split_def del: upt_Suc)

lemma contract_run:
  assumes c: "load_iris_contract b"
  shows "\<exists>df hc sx sy hxs xs ys.
    iris_df b = Inr df \<and>
    selected_histogram_column (snd (sidebar ss (feature_names b))) = Some hc \<and>
    scatter_x_column (snd (sidebar ss (feature_names b))) = Some sx \<and>
    scatter_y_column (snd (sidebar ss (feature_names b))) = Some sy \<and>
    hc \<in> set (feature_names b) \<and> sx \<in> set (feature_names b) \<and> sy \<in> set (feature_names b) \<and>
    getitem df hc = Inr (Float64 hxs) \<and> length hxs = 150 \<and>
    getitem df sx = Inr (Float64 xs) \<and> length xs = 150 \<and>
    getitem df sy = Inr (Float64 ys) \<and> length ys = 150 \<and>
    run_script b ss = Inr (df,
       \<lparr>total_samples = index_length df,
        total_features = length (feature_names b),
        species_classes = nunique (Object (map (\<lambda>t. target_names b ! t) (target b))),
        first_rows = head 10 df,
        summary_statistics = describe df,
        widgets = fst (sidebar ss (feature_names b)),
        histogram =
          \<lparr>hist_traces =
             map (\<lambda>g. \<lparr>hist_name = g,
                       hist_x = Float64 (rows_of (map (\<lambda>t. target_names b ! t) (target b)) g hxs),
                       hist_nbinsx = histogram_bins (snd (sidebar ss (feature_names b))),
                       hist_opacity = 7 / 10\<rparr>)
                 (uniq (map (\<lambda>t. target_names b ! t) (target b))),
           hist_barmode = ''overlay'', hist_title = ''Distribution of '' @ hc,
           hist_hovermode = Some ''x unified'', hist_height = Some 500\<rparr>,
        scatter =
          \<lparr>scat_traces =
             map (\<lambda>g. \<lparr>scat_name = g,
                       scat_x = Float64 (rows_of (map (\<lambda>t. target_names b ! t) (target b)) g xs),
                       scat_y = Float64 (rows_of (map (\<lambda>t. target_names b ! t) (target b)) g ys)\<rparr>)
                 (uniq (map (\<lambda>t. target_names b ! t) (target b))),
           scat_title = sx @ '' vs '' @ sy,
           scat_hover_data = map (\<lambda>c. (c, '':.2f'')) (feature_names b),
           scat_hovermode = Some ''closest'', scat_height = Some 500\<rparr>,
        heatmap =
          \<lparr>heat_z = snd (corr (df\<lparr>columns := map (\<lambda>k. (k, the (map_of (columns df) k))) (feature_names b)\<rparr>)),
           heat_x = fst (corr (df\<lparr>columns := map (\<lambda>k. (k, the (map_of (columns df) k))) (feature_names b)\<rparr>)),
           heat_y = fst (corr (df\<lparr>columns := map (\<lambda>k. (k, the (map_of (columns df) k))) (feature_names b)\<rparr>)),
           heat_colorscale = ''RdBu'', heat_zmid = 0,
           heat_text = snd (corr (df\<lparr>columns := map (\<lambda>k. (k, the (map_of (columns df) k))) (feature_names b)\<rparr>)),
           heat_texttemplate = ''%.2f'',
           heat_title = ''Feature Correlation Matrix'',
           heat_height = 600, heat_width = 700\<rparr>,
        species_chart =
          \<lparr>pie_values = map snd (value_counts (map (\<lambda>t. target_names b ! t) (target b))),
           pie_names = map fst (value_counts (map (\<lambda>t. target_names b ! t) (target b))),
           pie_title = ''Distribution of Iris Species'', pie_hole = 4 / 10,
           pie_height = Some 400\<rparr>\<rparr>)"
proof -
  let ?names = "feature_names b"
  obtain df where df: "iris_df b = Inr df"
    using iris_df_contract[OF c] by blast
  have len: "length ?names = 4"
    using c by (simp add: load_iris_contract_def)
  obtain hc sx sy where cs:
    "selected_histogram_column (snd (sidebar ss ?names)) = Some hc" "hc \<in> set ?names"
    "scatter_x_column (snd (sidebar ss ?names)) = Some sx" "sx \<in> set ?names"
    "scatter_y_column (snd (sidebar ss ?names)) = Some sy" "sy \<in> set ?names"
    using sidebar_Some[OF len, of ss] by blast
  obtain hxs where hxs: "getitem df hc = Inr (Float64 hxs)" "length hxs = 150"
    using contract_feature_column[OF c df cs(2)] by blast
  obtain xs where xs: "getitem df sx = Inr (Float64 xs)" "length xs = 150"
    using contract_feature_column[OF c df cs(4)] by blast
  obtain ys where ys: "getitem df sy = Inr (Float64 ys)" "length ys = 150"
    using contract_feature_column[OF c df cs(6)] by blast
  have hist: "px_histogram df hc (histogram_bins (snd (sidebar ss ?names))) ''species''
      ''overlay'' (''Distribution of '' @ hc) (7 / 10) =
       Inr \<lparr>hist_traces =
              map (\<lambda>g. \<lparr>hist_name = g,
                        hist_x = Float64 (rows_of (map (\<lambda>t. target_names b ! t) (target b)) g hxs),
                        hist_nbinsx = histogram_bins (snd (sidebar ss ?names)),
                        hist_opacity = 7 / 10\<rparr>)
                  (uniq (map (\<lambda>t. target_names b ! t) (target b))),
             hist_barmode = ''overlay'', hist_title = ''Distribution of '' @ hc,
             hist_hovermode = None, hist_height = None\<rparr>"
    using contract_px_histogram[OF c df cs(2)] hxs(1) by auto
  have scat: "px_scatter df sx sy ''species'' (sx @ '' vs '' @ sy)
      (map (\<lambda>c. (c, '':.2f'')) ?names) =
       Inr \<lparr>scat_traces =
              map (\<lambda>g. \<lparr>scat_name = g,
                        scat_x = Float64 (rows_of (map (\<lambda>t. target_names b ! t) (target b)) g xs),
                        scat_y = Float64 (rows_of (map (\<lambda>t. target_names b ! t) (target b)) g ys)\<rparr>)
                  (uniq (map (\<lambda>t. target_names b ! t) (target b))),
             scat_title = sx @ '' vs '' @ sy,
             scat_hover_data = map (\<lambda>c. (c, '':.2f'')) ?names,
             scat_hovermode = None, scat_height = None\<rparr>"
    using contract_px_scatter[OF c df cs(4) cs(6)] xs(1) ys(1) by auto
  note run = run_script_contract[OF c df cs(1) cs(3) cs(5) hist scat contract_getitems[OF c df]]
  show ?thesis
    apply (rule exI[of _ df], rule exI[of _ hc], rule exI[of _ sx], rule exI[of _ sy])
    apply (rule exI[of _ hxs], rule exI[of _ xs], rule exI[of _ ys])
    using df cs hxs xs ys apply (simp add: run px_pie_def)
    done
qed

lemma sample_bunch_contract: "load_iris_contract sample_bunch"
  by code_simp

lemma sample_feature_names:
  "feature_names sample_bunch =
     [''sepal length (cm)'', ''sepal width (cm)'', ''petal length (cm)'', ''petal width (cm)'']"
  by (simp add: sample_bunch_def)

lemma contract_widgets:
  assumes "load_iris_contract b"
  shows "\<exists>df p. run_script b ss = Inr (df, p) \<and>
           numeric_columns df = feature_names b \<and>
           widgets p =
             [Selectbox ''Select a column for histogram:'' (feature_names b) 0 ''histogram_column'',
              Slider ''Number of bins:'' 5 50 20 1 ''histogram_bins'',
              Selectbox ''Select X-axis column:'' (feature_names b) 0 ''scatter_x'',
              Selectbox ''Select Y-axis column:'' (feature_names b) 1 ''scatter_y'']"
proof -
  have len: "length (feature_names b) = 4"
    using assms by (simp add: load_iris_contract_def)
  from contract_run[OF assms, of ss] obtain df p where
    "iris_df b = Inr df" "run_script b ss = Inr (df, p)"
    "widgets p = fst (sidebar ss (feature_names b))"
    by force
  then show ?thesis
    using len contract_numeric_columns[OF assms] by (simp add: sidebar_eq)
qed

lemma length_notna: "None \<notin> set vs \<Longrightarrow> length (notna vs) = length vs"
  by (induction vs rule: notna.induct) auto

lemma contract_no_missing:
  assumes "load_iris_contract b" "j < 4"
  shows "None \<notin> set (map (\<lambda>r. r ! j) (data b))"
proof
  assume "None \<in> set (map (\<lambda>r. r ! j) (data b))"
  then obtain r where r: "r \<in> set (data b)" "r ! j = None" by auto
  then have "length r = 4" "None \<notin> set r"
    using assms(1) by (auto simp: load_iris_contract_def list_all_iff)
  then show False using r(2) assms(2) by (metis nth_mem)
qed

lemma contract_target_set:
  assumes "load_iris_contract b"
  shows "set (target b) = {0, 1, 2}"
proof -
  have "\<forall>t \<in> set (target b). t < 3"
    and "count_list (target b) 0 \<noteq> 0" "count_list (target b) 1 \<noteq> 0" "count_list (target b) 2 \<noteq> 0"
    using assms by (simp_all add: load_iris_contract_def list_all_iff)
  then have "0 \<in> set (target b)" "1 \<in> set (target b)" "2 \<in> set (target b)"
    and "set (target b) \<subseteq> {0, 1, 2}"
    by (auto simp: count_list_0_iff)
  then show ?thesis by auto
qed

lemma contract_species_set:
  assumes "load_iris_contract b"
  shows "set (map (\<lambda>t. target_names b ! t) (target b)) = set (target_names b)"
proof -
  have len: "length (target_names b) = 3" using assms by (simp add: load_iris_contract_def)
  have "set (target_names b) = (\<lambda>t. target_names b ! t) ` {0..<3}"
    using len by (metis atLeast0LessThan list.set_map map_nth set_upt)
  also have "{0..<3} = {0, 1, 2::nat}" by auto
  finally show ?thesis by (simp add: contract_target_set[OF assms])
qed

lemma contract_nunique:
  assumes "load_iris_contract b"
  shows "nunique (Object (map (\<lambda>t. target_names b ! t) (target b))) = 3"
proof -
  have "length (target_names b) = 3" "distinct (target_names b)"
    using assms by (simp_all add: load_iris_contract_def)
  then have "card (set (target_names b)) = 3" by (simp add: distinct_card)
  then show ?thesis
    by (simp add: length_remdups_card_conv contract_species_set[OF assms] del: set_map)
qed

lemma count_row:
  "map_of (describe_series vs) ''count'' = Some (Some (real (length (notna vs))))"
  by (simp add: describe_series_def Let_def)

lemma contract_describe_count:
  assumes "load_iris_contract b" "iris_df b = Inr df"
  shows "map (\<lambda>(k, st). (k, map_of st ''count'')) (describe df) =
         map (\<lambda>k. (k, Some (Some 150))) (feature_names b)"
proof -
  have len: "length (data b) = 150" using assms(1) by (simp add: load_iris_contract_def)
  have "map (\<lambda>(k, st). (k, map_of st ''count'')) (describe df) =
        map (\<lambda>j. (feature_names b ! j, Some (Some (real (length (notna (map (\<lambda>r. r ! j) (data b)))))))) [0..<4]"
    by (simp add: describe_def contract_columns(2)[OF assms] float_columns_append
        float_columns_map_Float64 comp_def count_row del: upt_Suc)
  also have "\<dots> = map (\<lambda>j. (feature_names b ! j, Some (Some 150))) [0..<4]"
    using length_notna[OF contract_no_missing[OF assms(1)]] len by (simp del: upt_Suc)
  also have "\<dots> = map (\<lambda>k. (k, Some (Some 150))) (map (\<lambda>j. feature_names b ! j) [0..<4])"
    by (simp only: map_map comp_def)
  finally show ?thesis by (simp only: contract_names[OF assms(1)])
qed

subsection \<open>The sidebar controls\<close>

text \<open>
  C7, as the spec states it ("the user input surface is exactly five controls"), fails: a run
  over the sample bunch puts four widgets in the sidebar, not five.
\<close>

theorem sidebar_has_five_controls_counterexample:
  "\<not> (\<exists>df p. run_script sample_bunch Map.empty = Inr (df, p) \<and> length (widgets p) = 5)"
  using contract_widgets[OF sample_bunch_contract, of Map.empty] by auto

text \<open>
  C7, amended: for a bunch that keeps the contract the sidebar holds exactly four controls,
  in this order: the histogram-column dropdown, the bins slider (minimum 5, maximum 50,
  default 20, step 1) and the two scatter-axis dropdowns. Each dropdown ranges over the
  numeric columns of the frame, which are exactly the 4 feature names. With nothing chosen
  yet the histogram and X dropdowns return the first feature name, the Y dropdown the
  second, the slider 20; the first and second names differ.
\<close>

theorem sidebar_controls:
  assumes "load_iris_contract b"
  shows "\<exists>df p. run_script b ss = Inr (df, p) \<and>
           numeric_columns df = feature_names b \<and> length (feature_names b) = 4 \<and>
           widgets p =
             [Selectbox ''Select a column for histogram:'' (feature_names b) 0 ''histogram_column'',
              Slider ''Number of bins:'' 5 50 20 1 ''histogram_bins'',
              Selectbox ''Select X-axis column:'' (feature_names b) 0 ''scatter_x'',
              Selectbox ''Select Y-axis column:'' (feature_names b) 1 ''scatter_y''] \<and>
           length (widgets p) = 4 \<and>
           snd (sidebar Map.empty (feature_names b)) =
             \<lparr>selected_histogram_column = Some (feature_names b ! 0), histogram_bins = 20,
              scatter_x_column = Some (feature_names b ! 0),
              scatter_y_column = Some (feature_names b ! 1)\<rparr> \<and>
           feature_names b ! 0 \<noteq> feature_names b ! 1"
proof -
  let ?names = "feature_names b"
  have len: "length ?names = 4" and dist: "distinct ?names"
    using assms by (simp_all add: load_iris_contract_def)
  have ne: "?names ! 0 \<noteq> ?names ! 1"
    using len dist by (simp add: nth_eq_iff_index_eq)
  have dflt: "snd (sidebar Map.empty ?names) =
      \<lparr>selected_histogram_column = Some (?names ! 0), histogram_bins = 20,
       scatter_x_column = Some (?names ! 0), scatter_y_column = Some (?names ! 1)\<rparr>"
    using len by (simp add: sidebar_eq selectbox_def slider_def)
  show ?thesis
    using contract_widgets[OF assms, of ss] len ne dflt by auto
qed

text \<open>On the sample bunch, before any interaction.\<close>

theorem sidebar_controls_witness:
  "load_iris_contract sample_bunch \<and>
   (\<exists>df p. run_script sample_bunch Map.empty = Inr (df, p) \<and>
      widgets p =
        [Selectbox ''Select a column for histogram:''
           [''sepal length (cm)'', ''sepal width (cm)'', ''petal length (cm)'', ''petal width (cm)'']
           0 ''histogram_column'',
         Slider ''Number of bins:'' 5 50 20 1 ''histogram_bins'',
         Selectbox ''Select X-axis column:''
           [''sepal length (cm)'', ''sepal width (cm)'', ''petal length (cm)'', ''petal width (cm)'']
           0 ''scatter_x'',
         Selectbox ''Select Y-axis column:''
           [''sepal length (cm)'', ''sepal width (cm)'', ''petal length (cm)'', ''petal width (cm)'']
           1 ''scatter_y''])"
  using sidebar_controls[OF sample_bunch_contract, of Map.empty] sample_bunch_contract
    sample_feature_names
  by auto

subsection \<open>The control state\<close>

lemma snd_selectbox_other:
  "k \<noteq> key \<Longrightarrow> snd (selectbox (interact ss k v) label options index key) =
     snd (selectbox ss label options index key)"
  by (simp add: selectbox_def interact_def)

lemma snd_slider_other:
  "k \<noteq> key \<Longrightarrow> snd (slider (interact ss k v) label lo hi d st key) =
     snd (slider ss label lo hi d st key)"
  by (simp add: slider_def interact_def)

lemma snd_selectbox_set:
  "s \<in> set options \<Longrightarrow>
     snd (selectbox (interact ss key (Str s)) label options index key) = Some s"
  by (simp add: selectbox_def interact_def)

lemma snd_slider_set:
  "lo \<le> n \<Longrightarrow> n \<le> hi \<Longrightarrow> (n - lo) mod st = 0 \<Longrightarrow>
     snd (slider (interact ss key (Num n)) label lo hi d st key) = n"
  by (simp add: slider_def interact_def)

text \<open>
  C5: an interaction with one widget changes that widget's field of the control state to the
  new value and leaves the three other fields as they were, from any session state, for
  any option \<open>v\<close> of the dropdowns and any slider value \<open>n\<close> from 5 to 50.
\<close>

theorem control_fields_independent:
  assumes "v \<in> set cols" and "5 \<le> n" and "n \<le> 50"
  shows "snd (sidebar (interact ss ''histogram_column'' (Str v)) cols) =
           (snd (sidebar ss cols))\<lparr>selected_histogram_column := Some v\<rparr> \<and>
         snd (sidebar (interact ss ''histogram_bins'' (Num n)) cols) =
           (snd (sidebar ss cols))\<lparr>histogram_bins := n\<rparr> \<and>
         snd (sidebar (interact ss ''scatter_x'' (Str v)) cols) =
           (snd (sidebar ss cols))\<lparr>scatter_x_column := Some v\<rparr> \<and>
         snd (sidebar (interact ss ''scatter_y'' (Str v)) cols) =
           (snd (sidebar ss cols))\<lparr>scatter_y_column := Some v\<rparr>"
  using assms
  by (simp add: sidebar_eq snd_selectbox_other snd_slider_other snd_selectbox_set
      snd_slider_set)

text \<open>On the sample bunch's feature names, from a state in which the X axis was already chosen: moving the slider to 35, and choosing the Y axis.\<close>

theorem control_fields_independent_witness:
  "''petal width (cm)'' \<in> set (feature_names sample_bunch) \<and> (5 :: int) \<le> 35 \<and> (35 :: int) \<le> 50 \<and>
   snd (sidebar (interact (Map.empty(''scatter_x'' \<mapsto> Str ''sepal width (cm)''))
                   ''histogram_bins'' (Num 35)) (feature_names sample_bunch)) =
     \<lparr>selected_histogram_column = Some ''sepal length (cm)'', histogram_bins = 35,
      scatter_x_column = Some ''sepal width (cm)'',
      scatter_y_column = Some ''sepal width (cm)''\<rparr> \<and>
   snd (sidebar (interact (Map.empty(''scatter_x'' \<mapsto> Str ''sepal width (cm)''))
                   ''scatter_y'' (Str ''petal width (cm)'')) (feature_names sample_bunch)) =
     \<lparr>selected_histogram_column = Some ''sepal length (cm)'', histogram_bins = 20,
      scatter_x_column = Some ''sepal width (cm)'',
      scatter_y_column = Some ''petal width (cm)''\<rparr>"
proof -
  have v: "''petal width (cm)'' \<in> set (feature_names sample_bunch)"
    by (simp add: sample_feature_names)
  have old: "snd (sidebar (Map.empty(''scatter_x'' \<mapsto> Str ''sepal width (cm)''))
                (feature_names sample_bunch)) =
     \<lparr>selected_histogram_column = Some ''sepal length (cm)'', histogram_bins = 20,
      scatter_x_column = Some ''sepal width (cm)'',
      scatter_y_column = Some ''sepal width (cm)''\<rparr>"
    by (simp add: sample_feature_names sidebar_eq selectbox_def slider_def)
  show ?thesis
    using control_fields_independent[OF v, of 35
        "Map.empty(''scatter_x'' \<mapsto> Str ''sepal width (cm)'')"] v old
    by simp
qed

subsection \<open>The dataset overview\<close>

text \<open>
  C6: for a bunch that keeps the contract the frame the script builds has 150 rows, the
  4 feature columns (all float64, so they are the numeric columns) followed by the species
  column, no NaN in any feature column, and exactly 3 distinct species labels over its 150
  rows; the run succeeds, its three metrics read 150, 4 and 3, and the count row of the
  summary statistics reads 150 under every numeric column.
\<close>

theorem dataset_overview:
  assumes "load_iris_contract b"
  shows "\<exists>df p sp.
     run_script b ss = Inr (df, p) \<and> iris_df b = Inr df \<and>
     index_length df = 150 \<and>
     map fst (columns df) = feature_names b @ [''species''] \<and>
     numeric_columns df = feature_names b \<and> length (numeric_columns df) = 4 \<and>
     list_all (\<lambda>k. \<exists>xs. getitem df k = Inr (Float64 xs) \<and> length xs = 150 \<and> None \<notin> set xs)
       (feature_names b) \<and>
     getitem df ''species'' = Inr (Object sp) \<and> length sp = 150 \<and> card (set sp) = 3 \<and>
     total_samples p = 150 \<and> total_features p = 4 \<and> species_classes p = 3 \<and>
     map (\<lambda>(k, st). (k, map_of st ''count'')) (summary_statistics p) =
       map (\<lambda>k. (k, Some (Some 150))) (feature_names b)"
proof -
  let ?sp = "map (\<lambda>t. target_names b ! t) (target b)"
  have len: "length (feature_names b) = 4" "length (target b) = 150"
    "length (target_names b) = 3" "distinct (target_names b)"
    using assms by (simp_all add: load_iris_contract_def)
  from contract_run[OF assms, of ss] obtain df p where run:
    "iris_df b = Inr df" "run_script b ss = Inr (df, p)"
    "total_samples p = index_length df" "total_features p = length (feature_names b)"
    "species_classes p = nunique (Object ?sp)" "summary_statistics p = describe df"
    by force
  have cols: "map fst (columns df) = feature_names b @ [''species'']"
    using contract_names[OF assms]
    by (simp add: contract_columns(2)[OF assms run(1)] comp_def del: upt_Suc)
  have feat: "list_all (\<lambda>k. \<exists>xs. getitem df k = Inr (Float64 xs) \<and> length xs = 150 \<and> None \<notin> set xs)
       (feature_names b)"
    unfolding list_all_iff
  proof
    fix k assume "k \<in> set (feature_names b)"
    then obtain j where j: "j < 4" "k = feature_names b ! j"
      using len(1) by (metis in_set_conv_nth)
    have "length (data b) = 150" using assms by (simp add: load_iris_contract_def)
    then show "\<exists>xs. getitem df k = Inr (Float64 xs) \<and> length xs = 150 \<and> None \<notin> set xs"
      using contract_feature[OF assms run(1) j(1)] contract_no_missing[OF assms j(1)] j(2)
      by simp
  qed
  have card: "card (set ?sp) = 3"
    using len(3,4) by (simp add: contract_species_set[OF assms] distinct_card del: set_map)
  show ?thesis
    apply (rule exI[of _ df], rule exI[of _ p], rule exI[of _ ?sp])
    using run cols feat card len contract_columns(1)[OF assms run(1)]
      contract_numeric_columns[OF assms run(1)] contract_species[OF assms run(1)]
      contract_nunique[OF assms] contract_describe_count[OF assms run(1)]
    apply simp
    done
qed

text \<open>On the sample bunch, before any interaction.\<close>

theorem dataset_overview_witness:
  "load_iris_contract sample_bunch \<and>
   (\<exists>df p. run_script sample_bunch Map.empty = Inr (df, p) \<and>
      index_length df = 150 \<and> length (numeric_columns df) = 4 \<and>
      total_samples p = 150 \<and> total_features p = 4 \<and> species_classes p = 3 \<and>
      map (\<lambda>(k, st). (k, map_of st ''count'')) (summary_statistics p) =
        [(''sepal length (cm)'', Some (Some 150)), (''sepal width (cm)'', Some (Some 150)),
         (''petal length (cm)'', Some (Some 150)), (''petal width (cm)'', Some (Some 150))])"
  using dataset_overview[OF sample_bunch_contract, of Map.empty] sample_bunch_contract
    sample_feature_names
  by auto

subsection \<open>The scatter view\<close>

lemma set_uniq: "set (uniq xs) = set xs"
  by (simp add: uniq_def)

lemma distinct_uniq: "distinct (uniq xs)"
  by (simp add: uniq_def)

lemma mset_groups_filter:
  assumes "distinct gs"
  shows "mset (concat (map (\<lambda>g. filter (\<lambda>p. fst p = g) ps) gs)) =
         mset (filter (\<lambda>p. fst p \<in> set gs) ps)"
  using assms
proof (induction gs)
  case Nil
  then show ?case by simp
next
  case (Cons g gs)
  have "mset (filter (\<lambda>p. fst p = g) ps) + mset (filter (\<lambda>p. fst p \<in> set gs) ps) =
        mset (filter (\<lambda>p. fst p = g \<or> fst p \<in> set gs) ps)"
    using Cons.prems by (induction ps) auto
  then show ?case using Cons by simp
qed

lemma mset_groups:
  assumes "length labels = length zs"
  shows "mset (concat (map (\<lambda>g. rows_of labels g zs) (uniq labels))) = mset zs"
proof -
  have "concat (map (\<lambda>g. rows_of labels g zs) (uniq labels)) =
        map snd (concat (map (\<lambda>g. filter (\<lambda>p. fst p = g) (zip labels zs)) (uniq labels)))"
    by (simp add: rows_of_def map_concat comp_def case_prod_unfold)
  moreover have "filter (\<lambda>p. fst p \<in> set labels) (zip labels zs) = zip labels zs"
    by (auto simp: filter_id_conv dest: set_zip_leftD)
  ultimately have "mset (concat (map (\<lambda>g. rows_of labels g zs) (uniq labels))) =
        image_mset snd (mset (zip labels zs))"
    using mset_groups_filter[OF distinct_uniq[of labels], of "zip labels zs"]
    by (simp add: set_uniq)
  also have "\<dots> = mset (map snd (zip labels zs))" by simp
  also have "map snd (zip labels zs) = zs" using assms by simp
  finally show ?thesis .
qed

lemma length_groups:
  assumes "length labels = length zs"
  shows "length (concat (map (\<lambda>g. rows_of labels g zs) (uniq labels))) = length zs"
  using mset_groups[OF assms] by (metis size_mset)

lemma zip_rows_of:
  assumes "length labels = length xs" "length xs = length ys"
  shows "zip (rows_of labels g xs) (rows_of labels g ys) = rows_of labels g (zip xs ys)"
  using assms
  by (induction labels xs ys rule: list_induct3) (auto simp: rows_of_def)


lemma contract_feature_no_missing:
  assumes "load_iris_contract b" "iris_df b = Inr df" "k \<in> set (feature_names b)"
    "getitem df k = Inr (Float64 xs)"
  shows "None \<notin> set xs"
proof -
  have "length (feature_names b) = 4"
    using assms(1) by (simp add: load_iris_contract_def)
  then obtain j where "j < 4" "k = feature_names b ! j"
    using assms(3) by (metis in_set_conv_nth)
  then show ?thesis
    using contract_feature[OF assms(1,2), of j] contract_no_missing[OF assms(1), of j] assms(4)
    by auto
qed

lemma points_Float64:
  "points \<lparr>scat_name = g, scat_x = Float64 a, scat_y = Float64 c\<rparr> =
     map (map_prod Inl Inl) (zip a c)"
  by (simp add: points_def zip_map_map map_prod_def)

lemma contract_scatter_points:
  assumes "length sp = length xs" "length xs = length ys"
  shows "concat (map points
           (map (\<lambda>g. \<lparr>scat_name = g, scat_x = Float64 (rows_of sp g xs),
                      scat_y = Float64 (rows_of sp g ys)\<rparr>) (uniq sp))) =
         map (map_prod Inl Inl) (concat (map (\<lambda>g. rows_of sp g (zip xs ys)) (uniq sp)))"
  by (simp add: comp_def points_Float64 zip_rows_of[OF assms] map_concat)

text \<open>
  C3: for a bunch that keeps the contract and any session state, the scatter figure's traces
  hold, taken together, exactly one point per row of the frame, at the row's values of the
  selected X and Y columns (as multisets: the traces order the rows by species): 150 points.
  When the same column is selected for X and Y, every point satisfies x == y.
\<close>

theorem scatter_points:
  assumes "load_iris_contract b"
  shows "\<exists>df p sx sy xs ys.
     run_script b ss = Inr (df, p) \<and>
     scatter_x_column (snd (sidebar ss (feature_names b))) = Some sx \<and>
     scatter_y_column (snd (sidebar ss (feature_names b))) = Some sy \<and>
     getitem df sx = Inr xs \<and> getitem df sy = Inr ys \<and>
     mset (concat (map points (scat_traces (scatter p)))) = mset (zip (cells xs) (cells ys)) \<and>
     length (concat (map points (scat_traces (scatter p)))) = 150 \<and>
     (sx = sy \<longrightarrow>
        list_all (\<lambda>(x, y). cell_eq x y) (concat (map points (scat_traces (scatter p)))))"
proof -
  let ?sp = "map (\<lambda>t. target_names b ! t) (target b)"
  from contract_run[OF assms, of ss] obtain df p sx sy xs ys where run:
    "iris_df b = Inr df" "run_script b ss = Inr (df, p)"
    "scatter_x_column (snd (sidebar ss (feature_names b))) = Some sx"
    "scatter_y_column (snd (sidebar ss (feature_names b))) = Some sy"
    "sx \<in> set (feature_names b)" "sy \<in> set (feature_names b)"
    "getitem df sx = Inr (Float64 xs)" "length xs = 150"
    "getitem df sy = Inr (Float64 ys)" "length ys = 150"
    "scat_traces (scatter p) =
       map (\<lambda>g. \<lparr>scat_name = g, scat_x = Float64 (rows_of ?sp g xs),
                  scat_y = Float64 (rows_of ?sp g ys)\<rparr>) (uniq ?sp)"
    by force
  have len: "length ?sp = length xs" "length xs = length ys" "length ?sp = length (zip xs ys)"
    using assms run(8,10) by (simp_all add: load_iris_contract_def)
  let ?pts = "concat (map points (scat_traces (scatter p)))"
  have pts: "?pts = map (map_prod Inl Inl) (concat (map (\<lambda>g. rows_of ?sp g (zip xs ys)) (uniq ?sp)))"
    unfolding run(11) by (rule contract_scatter_points[OF len(1,2)])
  have m: "mset ?pts = mset (zip (cells (Float64 xs)) (cells (Float64 ys)))"
  proof -
    have "mset ?pts = image_mset (map_prod Inl Inl)
        (mset (concat (map (\<lambda>g. rows_of ?sp g (zip xs ys)) (uniq ?sp))))"
      unfolding pts by simp
    also have "\<dots> = mset (map (map_prod Inl Inl) (zip xs ys))"
      by (simp only: mset_groups[OF len(3)] mset_map)
    finally show ?thesis
      by (simp add: zip_map_map map_prod_def)
  qed
  have l: "length ?pts = 150"
    unfolding pts using length_groups[OF len(3)] run(8,10) by simp
  have d: "list_all (\<lambda>(x, y). cell_eq x y) ?pts" if "sx = sy"
  proof -
    have "ys = xs" using that run(7,9) by simp
    moreover have "None \<notin> set xs"
      using contract_feature_no_missing[OF assms run(1,5,7)] .
    ultimately have "\<forall>q \<in># mset (zip (cells (Float64 xs)) (cells (Float64 ys))).
        case q of (x, y) \<Rightarrow> cell_eq x y"
      by (auto simp: zip_same in_set_zip) (metis float_eq.simps(1) nth_mem option.exhaust)
    then show ?thesis
      unfolding m[symmetric] by (simp add: list_all_iff)
  qed
  show ?thesis
    apply (rule exI[of _ df], rule exI[of _ p], rule exI[of _ sx], rule exI[of _ sy])
    apply (rule exI[of _ "Float64 xs"], rule exI[of _ "Float64 ys"])
    using run(2,3,4,7,9) m l d apply simp
    done
qed

text \<open>On the sample bunch, with the same column chosen for both axes.\<close>

theorem scatter_points_witness:
  "load_iris_contract sample_bunch \<and>
   (\<exists>df p xs.
      run_script sample_bunch
        (Map.empty(''scatter_x'' \<mapsto> Str ''sepal width (cm)'',
                   ''scatter_y'' \<mapsto> Str ''sepal width (cm)'')) = Inr (df, p) \<and>
      getitem df ''sepal width (cm)'' = Inr xs \<and>
      mset (concat (map points (scat_traces (scatter p)))) = mset (zip (cells xs) (cells xs)) \<and>
      length (concat (map points (scat_traces (scatter p)))) = 150 \<and>
      list_all (\<lambda>(x, y). cell_eq x y) (concat (map points (scat_traces (scatter p)))))"
proof -
  let ?ss = "Map.empty(''scatter_x'' \<mapsto> Str ''sepal width (cm)'',
                       ''scatter_y'' \<mapsto> Str ''sepal width (cm)'')"
  have x: "scatter_x_column (snd (sidebar ?ss (feature_names sample_bunch))) =
      Some ''sepal width (cm)''"
    and y: "scatter_y_column (snd (sidebar ?ss (feature_names sample_bunch))) =
      Some ''sepal width (cm)''"
    by (simp_all add: sample_feature_names sidebar_eq selectbox_def)
  show ?thesis
    using scatter_points[OF sample_bunch_contract, of ?ss] sample_bunch_contract
    unfolding x y by auto
qed

subsection \<open>The pie view\<close>

lemma count_list_map_inj:
  assumes "inj_on f (insert k (set xs))"
  shows "count_list (map f xs) (f k) = count_list xs k"
  using assms by (induction xs) (auto simp: inj_on_def)

lemma set_value_counts:
  "set (value_counts xs) = (\<lambda>l. (l, count_list xs l)) ` set xs"
  by (simp add: value_counts_def set_uniq)

lemma map_fst_value_counts:
  "mset (map fst (value_counts xs)) = mset (uniq xs)"
proof -
  have "mset (map fst (value_counts xs)) =
        image_mset fst (mset (map (\<lambda>l. (l, count_list xs l)) (uniq xs)))"
    unfolding value_counts_def by (simp only: mset_map mset_sort)
  then show ?thesis by (simp add: image_mset.compositionality comp_def)
qed

lemma distinct_value_counts: "distinct (map fst (value_counts xs))"
  using map_fst_value_counts[of xs] distinct_uniq[of xs] by (metis mset_eq_imp_distinct_iff)

lemma sum_value_counts: "sum_list (map snd (value_counts xs)) = length xs"
proof -
  have "mset (map snd (value_counts xs)) =
        image_mset snd (mset (map (\<lambda>l. (l, count_list xs l)) (uniq xs)))"
    unfolding value_counts_def by (simp only: mset_map mset_sort)
  also have "\<dots> = mset (map (count_list xs) (uniq xs))"
    by (simp add: image_mset.compositionality comp_def)
  finally have "sum_list (map snd (value_counts xs)) = sum_list (map (count_list xs) (uniq xs))"
    by (metis sum_mset_sum_list)
  also have "\<dots> = sum (count_list xs) (set xs)"
    by (simp add: sum_list_distinct_conv_sum_set[OF distinct_uniq] set_uniq)
  also have "\<dots> = length xs"
    by (rule sum_count_set) simp_all
  finally show ?thesis .
qed

lemma contract_species_counts:
  assumes "load_iris_contract b" "k < 3"
  shows "count_list (map (\<lambda>t. target_names b ! t) (target b)) (target_names b ! k) = 50"
proof -
  have d: "distinct (target_names b)" "length (target_names b) = 3"
    and t: "\<forall>t \<in> set (target b). t < 3"
    and c: "count_list (target b) 0 = 50" "count_list (target b) 1 = 50"
      "count_list (target b) 2 = 50"
    using assms(1) by (simp_all add: load_iris_contract_def list_all_iff)
  have "inj_on (\<lambda>t. target_names b ! t) (insert k (set (target b)))"
    using d t assms(2) by (auto simp: inj_on_def nth_eq_iff_index_eq)
  then have "count_list (map (\<lambda>t. target_names b ! t) (target b)) (target_names b ! k) =
      count_list (target b) k"
    by (rule count_list_map_inj)
  moreover have "k = 0 \<or> k = 1 \<or> k = 2" using assms(2) by auto
  ultimately show ?thesis using c by auto
qed

text \<open>
  C4: for a bunch that keeps the contract the pie figure has one slice per distinct species
  label of the frame, each slice's count is the number of rows with that label, the counts
  add up to 150, and the slices are the three class names with 50 each.
\<close>

theorem pie_slices:
  assumes "load_iris_contract b"
  shows "\<exists>df p sp.
     run_script b ss = Inr (df, p) \<and> getitem df ''species'' = Inr (Object sp) \<and>
     length (pie_names (species_chart p)) = length (pie_values (species_chart p)) \<and>
     distinct (pie_names (species_chart p)) \<and>
     set (pie_names (species_chart p)) = set sp \<and>
     list_all (\<lambda>(l, n). n = count_list sp l) (slices (species_chart p)) \<and>
     sum_list (pie_values (species_chart p)) = 150 \<and>
     set (slices (species_chart p)) =
       {(target_names b ! 0, 50), (target_names b ! 1, 50), (target_names b ! 2, 50)} \<and>
     length (slices (species_chart p)) = 3"
proof -
  let ?sp = "map (\<lambda>t. target_names b ! t) (target b)"
  from contract_run[OF assms, of ss] obtain df p where run:
    "iris_df b = Inr df" "run_script b ss = Inr (df, p)"
    "pie_values (species_chart p) = map snd (value_counts ?sp)"
    "pie_names (species_chart p) = map fst (value_counts ?sp)"
    by force
  have sl: "slices (species_chart p) = value_counts ?sp"
    by (simp add: slices_def run(3,4) zip_map_fst_snd)
  have len: "length (target b) = 150" "length (target_names b) = 3" "distinct (target_names b)"
    using assms by (simp_all add: load_iris_contract_def)
  have names: "set (map fst (value_counts ?sp)) = set ?sp"
    using map_fst_value_counts[of ?sp] set_uniq[of ?sp] by (metis set_mset_mset)
  have tn: "set (target_names b) = {target_names b ! 0, target_names b ! 1, target_names b ! 2}"
  proof -
    have "set (target_names b) = (\<lambda>t. target_names b ! t) ` {0..<3}"
      using len(2) by (metis atLeast0LessThan list.set_map map_nth set_upt)
    also have "{0..<3} = {0, 1, 2::nat}" by auto
    finally show ?thesis by simp
  qed
  have each: "list_all (\<lambda>(l, n). n = count_list ?sp l) (value_counts ?sp)"
    by (auto simp: list_all_iff set_value_counts)
  have s: "set (value_counts ?sp) =
      {(target_names b ! 0, 50), (target_names b ! 1, 50), (target_names b ! 2, 50)}"
    unfolding set_value_counts contract_species_set[OF assms] tn
    using contract_species_counts[OF assms] by simp
  have "card (set (map fst (value_counts ?sp))) = 3"
    unfolding names contract_species_set[OF assms] using len(2,3) by (simp add: distinct_card)
  then have l3: "length (value_counts ?sp) = 3"
    using distinct_value_counts[of ?sp] by (metis distinct_card length_map)
  show ?thesis
    apply (rule exI[of _ df], rule exI[of _ p], rule exI[of _ ?sp])
    using run contract_species[OF assms run(1)] distinct_value_counts[of ?sp] names each
      sum_value_counts[of ?sp] len(1) s l3 sl
    apply simp
    done
qed

text \<open>On the sample bunch, before any interaction.\<close>

theorem pie_slices_witness:
  "load_iris_contract sample_bunch \<and>
   (\<exists>df p. run_script sample_bunch Map.empty = Inr (df, p) \<and>
      sum_list (pie_values (species_chart p)) = 150 \<and>
      set (slices (species_chart p)) = {(''setosa'', 50), (''versicolor'', 50), (''virginica'', 50)} \<and>
      length (slices (species_chart p)) = 3)"
proof -
  have "target_names sample_bunch = [''setosa'', ''versicolor'', ''virginica'']"
    by (simp add: sample_bunch_def)
  then show ?thesis
    using pie_slices[OF sample_bunch_contract, of Map.empty] sample_bunch_contract
    by auto
qed

subsection \<open>The correlation view\<close>







lemma variance_short: "length xs < 2 \<Longrightarrow> variance xs = 0"
  by (cases xs) (auto simp: variance_def covariance_def)


lemma pearson_zero_variance_left:
  assumes "variance (map fst ps) = 0"
  shows "pearson ps = None"
  using assms by (simp add: pearson_def Let_def)

lemma pearson_zero_variance_right:
  assumes "variance (map snd ps) = 0"
  shows "pearson ps = None"
  using assms by (simp add: pearson_def Let_def)

lemma complete_pairs_notna:
  assumes "None \<notin> set xs" "None \<notin> set ys" "length xs = length ys"
  shows "map fst (complete_pairs xs ys) = notna xs" "map snd (complete_pairs xs ys) = notna ys"
  using assms by (induction xs ys rule: complete_pairs.induct) auto


lemma contract_corr:
  assumes "load_iris_contract b" "iris_df b = Inr df"
  shows "corr (df\<lparr>columns := map (\<lambda>k. (k, the (map_of (columns df) k))) (feature_names b)\<rparr>) =
     (feature_names b,
      map (\<lambda>i. map (\<lambda>j. pearson (complete_pairs (map (\<lambda>r. r ! i) (data b))
                                                  (map (\<lambda>r. r ! j) (data b)))) [0..<4])
          [0..<4])"
proof -
  let ?col = "\<lambda>j. map (\<lambda>r. r ! j) (data b)"
  have "map (\<lambda>k. (k, the (map_of (columns df) k))) (map (\<lambda>j. feature_names b ! j) [0..<4]) =
        map (\<lambda>j. (feature_names b ! j, Float64 (?col j))) [0..<4]"
  proof -
    have "the (map_of (columns df) (feature_names b ! j)) = Float64 (?col j)" if "j < 4" for j
      using contract_feature[OF assms that] by (simp add: getitem_def split: option.splits)
    then show ?thesis by (simp del: upt_Suc)
  qed
  then have cols: "map (\<lambda>k. (k, the (map_of (columns df) k))) (feature_names b) =
        map (\<lambda>j. (feature_names b ! j, Float64 (?col j))) [0..<4]"
    by (simp only: contract_names[OF assms(1)])
  have names: "map (\<lambda>j. feature_names b ! j) [0..<4] = feature_names b"
    by (rule contract_names[OF assms(1)])
  show ?thesis
    unfolding corr_def Let_def
    by (simp add: cols float_columns_map_Float64 comp_def names del: upt_Suc)
qed

lemma contract_heat_z:
  assumes "load_iris_contract b"
  shows "\<exists>df p. run_script b ss = Inr (df, p) \<and>
     heat_x (heatmap p) = feature_names b \<and> heat_y (heatmap p) = feature_names b \<and>
     heat_text (heatmap p) = heat_z (heatmap p) \<and>
     heat_z (heatmap p) =
       map (\<lambda>i. map (\<lambda>j. pearson (complete_pairs (map (\<lambda>r. r ! i) (data b))
                                                   (map (\<lambda>r. r ! j) (data b)))) [0..<4])
           [0..<4]"
proof -
  from contract_run[OF assms, of ss] obtain df p where run:
    "iris_df b = Inr df" "run_script b ss = Inr (df, p)"
    "heat_z (heatmap p) = snd (corr (df\<lparr>columns := map (\<lambda>k. (k, the (map_of (columns df) k))) (feature_names b)\<rparr>))"
    "heat_x (heatmap p) = fst (corr (df\<lparr>columns := map (\<lambda>k. (k, the (map_of (columns df) k))) (feature_names b)\<rparr>))"
    "heat_y (heatmap p) = fst (corr (df\<lparr>columns := map (\<lambda>k. (k, the (map_of (columns df) k))) (feature_names b)\<rparr>))"
    "heat_text (heatmap p) = snd (corr (df\<lparr>columns := map (\<lambda>k. (k, the (map_of (columns df) k))) (feature_names b)\<rparr>))"
    by force
  show ?thesis
    apply (rule exI[of _ df], rule exI[of _ p])
    using run(2) unfolding run(3,4,5,6) contract_corr[OF assms run(1)] apply simp
    done
qed

lemma contract_pairs:
  assumes "load_iris_contract b" "i < 4" "j < 4"
  shows "map fst (complete_pairs (map (\<lambda>r. r ! i) (data b)) (map (\<lambda>r. r ! j) (data b))) =
           notna (map (\<lambda>r. r ! i) (data b))"
    and "map snd (complete_pairs (map (\<lambda>r. r ! i) (data b)) (map (\<lambda>r. r ! j) (data b))) =
           notna (map (\<lambda>r. r ! j) (data b))"
  using complete_pairs_notna[OF contract_no_missing[OF assms(1,2)] contract_no_missing[OF assms(1,3)]]
  by simp_all

lemma contract_pearson_Some:
  assumes "load_iris_contract b" "i < 4" "j < 4"
    "variance (notna (map (\<lambda>r. r ! i) (data b))) \<noteq> 0"
    "variance (notna (map (\<lambda>r. r ! j) (data b))) \<noteq> 0"
  shows "\<exists>c. pearson (complete_pairs (map (\<lambda>r. r ! i) (data b)) (map (\<lambda>r. r ! j) (data b))) = Some c"
proof -
  let ?ps = "complete_pairs (map (\<lambda>r. r ! i) (data b)) (map (\<lambda>r. r ! j) (data b))"
  have "\<not> length (map fst ?ps) < 2"
    unfolding contract_pairs(1)[OF assms(1,2,3)] using assms(4) variance_short by blast
  then have "\<not> length ?ps < 2" by simp
  then show ?thesis
    using assms(4,5) by (simp add: pearson_def Let_def contract_pairs[OF assms(1,2,3)])
qed

lemma variance_eq:
  "variance xs = (\<Sum>x\<leftarrow>xs. (x - mean xs)\<^sup>2) / real (length xs - 1)"
  by (simp add: variance_def covariance_def comp_def power2_eq_square)

lemma variance_zero_iff:
  assumes "2 \<le> length xs"
  shows "variance xs = 0 \<longleftrightarrow> (\<forall>x \<in> set xs. x = mean xs)"
proof -
  have "(\<Sum>x\<leftarrow>xs. (x - mean xs)\<^sup>2) = 0 \<longleftrightarrow> (\<forall>y \<in> set (map (\<lambda>x. (x - mean xs)\<^sup>2) xs). y = 0)"
    by (rule sum_list_nonneg_eq_0_iff) auto
  then show ?thesis
    using assms by (auto simp: variance_eq)
qed

lemma variance_two_values:
  assumes "x \<in> set xs" "y \<in> set xs" "x \<noteq> y"
  shows "variance xs \<noteq> 0"
proof
  assume 0: "variance xs = 0"
  have "2 \<le> length xs"
  proof (rule ccontr)
    assume "\<not> 2 \<le> length xs"
    then have "length xs \<le> 1" by simp
    then have "card (set xs) \<le> 1" using card_length[of xs] by simp
    then show False using assms by (metis List.finite_set card_le_Suc0_iff_eq One_nat_def)
  qed
  then have "\<forall>z \<in> set xs. z = mean xs"
    using 0 by (simp add: variance_zero_iff)
  then have "x = mean xs" "y = mean xs"
    using assms(1,2) by blast+
  then show False using assms(3) by simp
qed

lemma variance_constant:
  assumes "\<forall>x \<in> set xs. x = c"
  shows "variance xs = 0"
proof (cases "2 \<le> length xs")
  case True
  have "xs = replicate (length xs) c"
    using assms by (simp add: replicate_length_same)
  then have "sum_list xs = real (length xs) * c"
    by (metis sum_list_replicate)
  moreover have "xs \<noteq> []" using True by auto
  ultimately have "mean xs = c" by (simp add: mean_def)
  then show ?thesis using assms True by (simp add: variance_zero_iff)
next
  case False
  then show ?thesis by (simp add: variance_short)
qed

lemma notna_map_Some: "notna (map (\<lambda>i. Some (f i)) xs) = map f xs"
  by (induction xs) auto


lemma variance_map_two_values:
  assumes "a \<in> set js" "c \<in> set js" "f a \<noteq> f c"
  shows "variance (map f js) \<noteq> 0"
  by (rule variance_two_values[of "f a" _ "f c"]) (use assms in auto)


lemma flat_bunch_contract: "load_iris_contract flat_bunch"
  by code_simp

lemma flat_columns:
  "notna (map (\<lambda>r. r ! 0) (data flat_bunch)) = map (\<lambda>i. 4 + real (i mod 10) / 10) [0..<150]"
  "notna (map (\<lambda>r. r ! 1) (data flat_bunch)) = map (\<lambda>i. 2 + real (i mod 7) / 10) [0..<150]"
  "notna (map (\<lambda>r. r ! 3) (data flat_bunch)) = map (\<lambda>i. 1) [0..<150]"
  unfolding flat_bunch_def sample_bunch_def
  by (simp_all add: comp_def notna_map_Some del: upt_rec_numeral)

lemma flat_variance: "variance (notna (map (\<lambda>r. r ! 3) (data flat_bunch))) = 0"
  unfolding flat_columns by (rule variance_constant[of _ 1]) simp





text \<open>
  C9: for a bunch that keeps the contract but has a feature column \<open>i\<close> of zero variance,
  the run still succeeds; row \<open>i\<close> and column \<open>i\<close> of the correlation matrix are NaN, and
  every entry between two columns of non-zero variance is a number.
\<close>

theorem zero_variance_sentinel:
  assumes "load_iris_contract b" and "i < 4"
    and "variance (notna (map (\<lambda>r. r ! i) (data b))) = 0"
  shows "\<exists>df p. run_script b ss = Inr (df, p) \<and>
     length (heat_z (heatmap p)) = 4 \<and>
     (\<forall>j<4. length (heat_z (heatmap p) ! j) = 4 \<and>
        heat_z (heatmap p) ! i ! j = None \<and> heat_z (heatmap p) ! j ! i = None) \<and>
     (\<forall>j<4. \<forall>k<4.
        variance (notna (map (\<lambda>r. r ! j) (data b))) \<noteq> 0 \<and>
        variance (notna (map (\<lambda>r. r ! k) (data b))) \<noteq> 0 \<longrightarrow>
        heat_z (heatmap p) ! j ! k \<noteq> None)"
proof -
  let ?col = "\<lambda>j. map (\<lambda>r. r ! j) (data b)"
  let ?z = "map (\<lambda>i. map (\<lambda>j. pearson (complete_pairs (?col i) (?col j))) [0..<4]) [0..<4]"
  from contract_heat_z[OF assms(1), of ss] obtain df p where run:
    "run_script b ss = Inr (df, p)" "heat_z (heatmap p) = ?z"
    by blast
  have entry: "?z ! j ! k = pearson (complete_pairs (?col j) (?col k))" if "j < 4" "k < 4" for j k
    using that by (simp del: upt_Suc)
  have row: "?z ! i ! j = None" and col: "?z ! j ! i = None" if j: "j < 4" for j
  proof -
    show "?z ! i ! j = None"
      unfolding entry[OF assms(2) j]
      by (rule pearson_zero_variance_left)
         (simp only: contract_pairs(1)[OF assms(1,2) j] assms(3))
    show "?z ! j ! i = None"
      unfolding entry[OF j assms(2)]
      by (rule pearson_zero_variance_right)
         (simp only: contract_pairs(2)[OF assms(1) j assms(2)] assms(3))
  qed
  have rest: "?z ! j ! k \<noteq> None" if jk: "j < 4" "k < 4"
    and v: "variance (notna (?col j)) \<noteq> 0" "variance (notna (?col k)) \<noteq> 0" for j k
    unfolding entry[OF jk] using contract_pearson_Some[OF assms(1) jk v] by auto
  have len: "length ?z = 4" "\<forall>j<4. length (?z ! j) = 4"
    by (simp_all del: upt_Suc)
  show ?thesis
    apply (rule exI[of _ df], rule exI[of _ p])
    unfolding run(2)
    using run(1) len row col rest apply blast
    done
qed

text \<open>On the sample bunch with its last column made constant.\<close>

theorem zero_variance_sentinel_witness:
  "load_iris_contract flat_bunch \<and> (3 :: nat) < 4 \<and>
   variance (notna (map (\<lambda>r. r ! 3) (data flat_bunch))) = 0 \<and>
   (\<exists>df p. run_script flat_bunch Map.empty = Inr (df, p) \<and>
      heat_z (heatmap p) ! 3 ! 0 = None \<and> heat_z (heatmap p) ! 0 ! 3 = None \<and>
      heat_z (heatmap p) ! 3 ! 3 = None \<and> heat_z (heatmap p) ! 0 ! 1 \<noteq> None)"
proof -
  have lt: "(3 :: nat) < 4" by simp
  have v0: "variance (notna (map (\<lambda>r. r ! 0) (data flat_bunch))) \<noteq> 0"
    unfolding flat_columns by (rule variance_map_two_values[of 0 _ 1]) simp_all
  have v1: "variance (notna (map (\<lambda>r. r ! 1) (data flat_bunch))) \<noteq> 0"
    unfolding flat_columns by (rule variance_map_two_values[of 0 _ 1]) simp_all
  from zero_variance_sentinel[OF flat_bunch_contract lt flat_variance, of Map.empty]
  obtain df p where run: "run_script flat_bunch Map.empty = Inr (df, p)"
    "\<forall>j<4. length (heat_z (heatmap p) ! j) = 4 \<and>
        heat_z (heatmap p) ! 3 ! j = None \<and> heat_z (heatmap p) ! j ! 3 = None"
    "\<forall>j<4. \<forall>k<4.
        variance (notna (map (\<lambda>r. r ! j) (data flat_bunch))) \<noteq> 0 \<and>
        variance (notna (map (\<lambda>r. r ! k) (data flat_bunch))) \<noteq> 0 \<longrightarrow>
        heat_z (heatmap p) ! j ! k \<noteq> None"
    by blast
  have "heat_z (heatmap p) ! 3 ! 0 = None" "heat_z (heatmap p) ! 0 ! 3 = None"
    "heat_z (heatmap p) ! 3 ! 3 = None"
    using run(2) by simp_all
  moreover have "heat_z (heatmap p) ! 0 ! 1 \<noteq> None"
    using run(3) v0 v1 by simp
  ultimately show ?thesis
    using run(1) flat_bunch_contract flat_variance lt by blast
qed

subsection \<open>The histogram view\<close>

lemma slider_range:
  "lo \<le> d \<Longrightarrow> d \<le> hi \<Longrightarrow> lo \<le> snd (slider ss label lo hi d st key) \<and>
     snd (slider ss label lo hi d st key) \<le> hi"
  by (auto simp: slider_def split: option.splits wvalue.splits)

text \<open>
  What the script fixes of the histogram (the subject of C1): one trace per species, each
  asking for \<open>nbinsx\<close> = the slider's value, which lies between 5 and 50, and the traces
  hold between them the 150 values of the selected column, each once. The bins are computed
  from these by plotly.js when the figure is drawn, outside the script.
\<close>

lemma histogram_request:
  assumes "load_iris_contract b"
  shows "\<exists>df p hc xs.
     run_script b ss = Inr (df, p) \<and>
     selected_histogram_column (snd (sidebar ss (feature_names b))) = Some hc \<and>
     getitem df hc = Inr (Float64 xs) \<and>
     map hist_name (hist_traces (histogram p)) = uniq (map (\<lambda>t. target_names b ! t) (target b)) \<and>
     length (hist_traces (histogram p)) = 3 \<and>
     list_all (\<lambda>t. hist_nbinsx t = histogram_bins (snd (sidebar ss (feature_names b))))
       (hist_traces (histogram p)) \<and>
     5 \<le> histogram_bins (snd (sidebar ss (feature_names b))) \<and>
     histogram_bins (snd (sidebar ss (feature_names b))) \<le> 50 \<and>
     mset (concat (map (\<lambda>t. cells (hist_x t)) (hist_traces (histogram p)))) = mset (map Inl xs) \<and>
     length (concat (map (\<lambda>t. cells (hist_x t)) (hist_traces (histogram p)))) = 150"
proof -
  let ?sp = "map (\<lambda>t. target_names b ! t) (target b)"
  from contract_run[OF assms, of ss] obtain df p hc xs where run:
    "iris_df b = Inr df" "run_script b ss = Inr (df, p)"
    "selected_histogram_column (snd (sidebar ss (feature_names b))) = Some hc"
    "getitem df hc = Inr (Float64 xs)" "length xs = 150"
    "hist_traces (histogram p) =
       map (\<lambda>g. \<lparr>hist_name = g, hist_x = Float64 (rows_of ?sp g xs),
                  hist_nbinsx = histogram_bins (snd (sidebar ss (feature_names b))),
                  hist_opacity = 7 / 10\<rparr>) (uniq ?sp)"
    by force
  have len: "length ?sp = length xs" "length (target_names b) = 3" "distinct (target_names b)"
    using assms run(5) by (simp_all add: load_iris_contract_def)
  have "card (set (uniq ?sp)) = 3"
    unfolding set_uniq contract_species_set[OF assms] using len(2,3) by (simp add: distinct_card)
  then have n3: "length (uniq ?sp) = 3"
    using distinct_uniq[of ?sp] by (metis distinct_card)
  have vals: "concat (map (\<lambda>t. cells (hist_x t)) (hist_traces (histogram p))) =
      map Inl (concat (map (\<lambda>g. rows_of ?sp g xs) (uniq ?sp)))"
    unfolding run(6) by (simp add: comp_def map_concat)
  have m: "mset (concat (map (\<lambda>t. cells (hist_x t)) (hist_traces (histogram p)))) = mset (map Inl xs)"
    unfolding vals by (simp only: mset_map mset_groups[OF len(1)])
  have l: "length (concat (map (\<lambda>t. cells (hist_x t)) (hist_traces (histogram p)))) = 150"
    unfolding vals using length_groups[OF len(1)] run(5) by simp
  have bins: "5 \<le> histogram_bins (snd (sidebar ss (feature_names b)))"
    "histogram_bins (snd (sidebar ss (feature_names b))) \<le> 50"
    using slider_range[of 5 20 50 ss] by (simp_all add: sidebar_eq)
  show ?thesis
    apply (rule exI[of _ df], rule exI[of _ p], rule exI[of _ hc], rule exI[of _ xs])
    using run(2,3,4) m l bins n3 unfolding run(6)
    apply (simp add: comp_def list_all_iff)
    done
qed

subsection \<open>The heatmap's labels and colours\<close>

text \<open>
  C8: the script hands the heatmap the correlation values as \<open>text\<close> and the template
  \<open>%.2f\<close>. The template holds no placeholder, so whatever plotly's fill does, the label
  of every cell is the four characters \<open>%.2f\<close>, not the coefficient rounded to two
  decimals. The colour scale is RdBu with its midpoint at zero.
\<close>

theorem heatmap_cell_labels:
  assumes "load_iris_contract b"
  shows "\<exists>df p. run_script b ss = Inr (df, p) \<and>
     heat_text (heatmap p) = heat_z (heatmap p) \<and>
     heat_texttemplate (heatmap p) = ''%.2f'' \<and>
     texttemplate_label fill (heat_texttemplate (heatmap p)) cell = ''%.2f'' \<and>
     heat_colorscale (heatmap p) = ''RdBu'' \<and> heat_zmid (heatmap p) = 0"
proof -
  from contract_run[OF assms, of ss] obtain df p where run:
    "run_script b ss = Inr (df, p)"
    "heat_text (heatmap p) = heat_z (heatmap p)"
    "heat_texttemplate (heatmap p) = ''%.2f''"
    "heat_colorscale (heatmap p) = ''RdBu''" "heat_zmid (heatmap p) = 0"
    by force
  have "texttemplate_label fill ''%.2f'' cell = ''%.2f''"
    by (simp add: texttemplate_label_def)
  then show ?thesis
    using run by auto
qed

text \<open>On the sample bunch, for a fill that would have drawn 0.12.\<close>

theorem heatmap_cell_labels_witness:
  "load_iris_contract sample_bunch \<and>
   (\<exists>df p. run_script sample_bunch Map.empty = Inr (df, p) \<and>
      texttemplate_label (\<lambda>t c. ''0.12'') (heat_texttemplate (heatmap p)) (Some (12 / 100 :: real))
        = ''%.2f'')"
  using heatmap_cell_labels[OF sample_bunch_contract, of Map.empty "\<lambda>t c. ''0.12''" "Some (12 / 100 :: real)"]
    sample_bunch_contract
  by auto

end
